theory Spec2Isabelle
  imports Main "HOL-Library.Word"
begin

unbundle bit_operations_syntax

section \<open>The send wrappers of libmicrohttpd (microhttpd/mhd_send.c)\<close>

text \<open>
  The file is written once and compiled many ways: every \<^verbatim>\<open>#ifdef\<close> it branches on is a
  boolean field of the record \<open>platform\<close>, and every constant or macro that it takes from a
  header which is not part of the sources at hand (errno values, the \<^verbatim>\<open>MHD_ERR_*\<close> codes,
  the \<^verbatim>\<open>MHD_SCKT_ERR_IS_*\<close> classifiers, \<^verbatim>\<open>OFF_T_MAX\<close>, flag bits) is a field of the
  same record, left uninterpreted. A theorem about all platforms quantifies over the
  record; \<open>linux_platform\<close> and its variants further down are samples used for running
  the model.

  \<^item> Isabelle names cannot end in an underscore, so the trailing underscore of the C names
    is dropped: \<^verbatim>\<open>MHD_send_on_connection_\<close> is \<open>MHD_send_on_connection\<close>.
  \<^item> \<^verbatim>\<open>size_t\<close> values are naturals; a conversion to \<^verbatim>\<open>size_t\<close> is \<open>to_size_t\<close>, reduction
    modulo \<open>2 ^ SIZE_T_BITS\<close>.
  \<^item> \<^verbatim>\<open>ssize_t\<close>, \<^verbatim>\<open>off_t\<close>, \<^verbatim>\<open>int\<close> values are integers. A conversion from one signed
    type to another keeps the value: what is converted is a byte count or a file offset
    that the code has bounded before, or asserts to be bounded.
  \<^item> \<^verbatim>\<open>uint64_t\<close> values are \<open>64 word\<close>, so \<open>+\<close> and \<open>-\<close> wrap as in C.
\<close>

subsection \<open>Build configuration and constants of other headers\<close>

datatype sendfile_variant =
    HAVE_LINUX_SENDFILE
  | HAVE_SOLARIS_SENDFILE
  | HAVE_FREEBSD_SENDFILE
  | HAVE_DARWIN_SENDFILE

record platform =
  MHD_USE_MSG_MORE :: bool
  MHD_TCP_CORK_NOPUSH :: bool
  HTTPS_SUPPORT :: bool
  EPOLL_SUPPORT :: bool
  HAVE_MESSAGES :: bool
  HAVE_SENDMSG :: bool
  HAVE_WRITEV :: bool
  HAVE_SENDFILE64 :: bool
  SENDFILE :: sendfile_variant
  SF_FLAGS :: bool
  NDEBUG :: bool
  SIZE_T_BITS :: nat
  SSIZE_MAX :: nat
  MHD_SCKT_SEND_MAX_SIZE :: nat
  OFF_T_MAX :: "64 word"
  OFF64_T_MAX :: "64 word"
  MSG_MORE :: int
  MSG_NOSIGNAL_OR_ZERO :: int
  MHD_INVALID_SOCKET :: int
  MHD_USE_TLS :: "32 word"
  MHD_USE_THREAD_PER_CONNECTION :: "32 word"
  MHD_EPOLL_STATE_WRITE_READY :: "32 word"
  GNUTLS_E_AGAIN :: int
  GNUTLS_E_INTERRUPTED :: int
  MHD_ERR_AGAIN :: int
  MHD_ERR_CONNRESET :: int
  MHD_ERR_NOTCONN :: int
  MHD_ERR_BADF :: int
  MHD_SCKT_ERR_IS_EAGAIN :: "int \<Rightarrow> bool"
  MHD_SCKT_ERR_IS_EINTR :: "int \<Rightarrow> bool"
  MHD_SCKT_ERR_IS_ECONNRESET :: "int \<Rightarrow> bool"
  MHD_SCKT_ERR_IS_EBADF :: "int \<Rightarrow> bool"
  EAGAIN :: int
  ENOTSOCK :: int
  EBADF :: int
  EINVAL :: int
  EFAULT :: int
  ENOPROTOOPT :: int
  EAFNOSUPPORT :: int
  EOPNOTSUPP :: int
  ENOTSUP :: int
  ENOTCONN :: int
  EPIPE :: int
  EBUSY :: int
  freebsd_sendfile_flags :: int
  freebsd_sendfile_flags_thd_p_c :: int

text \<open>
  \<open>MHD_SCKT_ERR_IS_ECONNRESET P err\<close> stands for
  \<^verbatim>\<open>MHD_SCKT_ERR_IS_ (err, MHD_SCKT_ECONNRESET_)\<close> and \<open>MHD_SCKT_ERR_IS_EBADF P err\<close> for
  \<^verbatim>\<open>MHD_SCKT_ERR_IS_ (err, MHD_SCKT_EBADF_)\<close>. The two FreeBSD flag words are the file's
  static variables, set once by \<^verbatim>\<open>MHD_send_init_static_vars_\<close> before any send.
\<close>

definition MHD_SENFILE_CHUNK :: nat where
  "MHD_SENFILE_CHUNK = 0x20000"

definition MHD_SENFILE_CHUNK_THR_P_C :: nat where
  "MHD_SENFILE_CHUNK_THR_P_C = 0x200000"

definition to_size_t :: "platform \<Rightarrow> int \<Rightarrow> nat" where
  "to_size_t P i = nat (i mod 2 ^ SIZE_T_BITS P)"

definition mhd_assert :: "platform \<Rightarrow> bool \<Rightarrow> bool" where
  "mhd_assert P chk = (NDEBUG P \<or> chk)"

subsection \<open>Connection, response, daemon\<close>

text \<open>
  The structures are declared in a header that is not at hand; the records hold the
  fields this file reads or writes. Of the connection states only
  \<^verbatim>\<open>MHD_CONNECTION_CLOSED\<close> is tested here, the others are \<open>MHD_CONNECTION_OTHER\<close>. A TLS
  session is an opaque handle.
\<close>

datatype MHD_CONNECTION_STATE = MHD_CONNECTION_CLOSED | MHD_CONNECTION_OTHER nat

datatype MHD_resp_sender = MHD_resp_sender_std | MHD_resp_sender_sendfile

datatype MHD_SendSocketOptions = MHD_SSO_PUSH_DATA | MHD_SSO_PREFER_BUFF | MHD_SSO_HDR_CORK

record MHD_Daemon =
  options :: "32 word"

record MHD_Response =
  fd :: int
  fd_off :: "64 word"
  total_size :: "64 word"

record MHD_Connection =
  daemon :: MHD_Daemon
  response :: MHD_Response
  socket_fd :: int
  tls_session :: nat
  state :: MHD_CONNECTION_STATE
  sk_corked :: bool
  sk_nodelay :: bool
  epoll_state :: "32 word"
  resp_sender :: MHD_resp_sender
  response_write_position :: "64 word"

subsection \<open>The operating system: calls made and answers received\<close>

text \<open>
  Every function returns, next to its C result and the updated connection, the list of
  external calls it made, in order. What the system answers to a call is an input:
  \<open>a_ret\<close> is the call's return value, \<open>a_errno\<close> the error number read afterwards, and
  \<open>a_out\<close> the value left in an out-parameter (\<^verbatim>\<open>sent_bytes\<close> on FreeBSD, \<^verbatim>\<open>len\<close> on Darwin).
\<close>

type_synonym bytes = "8 word list"

datatype syscall =
    MHD_socket_cork int bool
  | MHD_socket_set_nodelay int bool
  | MHD_DLOG string
  | MHD_send4 int bytes nat int
  | gnutls_record_send nat bytes nat
  | sendmsg int bytes nat bytes nat int
  | writev int bytes nat bytes nat nat
  | sendfile int int "64 word" nat
  | sendfile64 int int "64 word" nat
  | sendfile_freebsd int int "64 word" nat int
  | sendfile_darwin int int "64 word" int

record sys_answer =
  a_ret :: int
  a_errno :: int
  a_out :: int

record send_env =
  pre_answer :: sys_answer
  io_answer :: sys_answer
  post_answer :: sys_answer

subsection \<open>\<^verbatim>\<open>pre_send_setopt\<close> and \<^verbatim>\<open>post_send_setopt\<close>\<close>

text \<open>
  The \<^verbatim>\<open>switch (errno)\<close> after a failed cork call: it only logs, and only in three cases
  (with \<^verbatim>\<open>HAVE_MESSAGES\<close>). A log entry carries the message format without its final
  newline.
\<close>

definition cork_errno_switch :: "platform \<Rightarrow> int \<Rightarrow> syscall list" where
  "cork_errno_switch P err =
     (if err = ENOTSOCK P then []
      else if err = EBADF P then []
      else if err = EINVAL P then
        (if HAVE_MESSAGES P then [MHD_DLOG ''optlen invalid: %s''] else [])
      else if err = EFAULT P then
        (if HAVE_MESSAGES P then
           [MHD_DLOG ''The address pointed to by optval is not a valid part of the process address space: %s'']
         else [])
      else if err = ENOPROTOOPT P then
        (if HAVE_MESSAGES P then [MHD_DLOG ''The option is unknown: %s''] else [])
      else [])"

definition pre_send_setopt ::
  "platform \<Rightarrow> sys_answer \<Rightarrow> MHD_Connection \<Rightarrow> bool \<Rightarrow> bool \<Rightarrow> MHD_Connection \<times> syscall list" where
  "pre_send_setopt P a connection plain_send push_data =
     (let buffer_data = (\<not> push_data) in
      if MHD_USE_MSG_MORE P \<and> plain_send then (connection, [])
      else if MHD_TCP_CORK_NOPUSH P then
        (if sk_corked connection = buffer_data then (connection, [])
         else if push_data then (connection, [])
         else if 0 \<noteq> a_ret a then
           (connection\<lparr>sk_corked := buffer_data\<rparr>,
            [MHD_socket_cork (socket_fd connection) buffer_data])
         else
           (connection,
            MHD_socket_cork (socket_fd connection) buffer_data # cork_errno_switch P (a_errno a)))
      else
        (if sk_nodelay connection = push_data then (connection, [])
         else if 0 = a_ret a then
           (connection\<lparr>sk_nodelay := push_data\<rparr>,
            [MHD_socket_set_nodelay (socket_fd connection) push_data])
         else
           (connection, [MHD_socket_set_nodelay (socket_fd connection) push_data])))"

definition post_send_setopt ::
  "platform \<Rightarrow> sys_answer \<Rightarrow> MHD_Connection \<Rightarrow> bool \<Rightarrow> bool \<Rightarrow> MHD_Connection \<times> syscall list" where
  "post_send_setopt P a connection plain_send push_data =
     (let buffer_data = (\<not> push_data) in
      if MHD_USE_MSG_MORE P \<and> plain_send then (connection, [])
      else if MHD_TCP_CORK_NOPUSH P then
        (if sk_corked connection = buffer_data then (connection, [])
         else if buffer_data then (connection, [])
         else if 0 \<noteq> a_ret a then
           (connection\<lparr>sk_corked := buffer_data\<rparr>,
            [MHD_socket_cork (socket_fd connection) buffer_data])
         else
           (connection,
            MHD_socket_cork (socket_fd connection) buffer_data # cork_errno_switch P (a_errno a)))
      else (connection, []))"

subsection \<open>\<^verbatim>\<open>MHD_send_on_connection_\<close>\<close>

definition clear_write_ready :: "platform \<Rightarrow> MHD_Connection \<Rightarrow> MHD_Connection" where
  "clear_write_ready P connection =
     connection\<lparr>epoll_state := epoll_state connection AND NOT (MHD_EPOLL_STATE_WRITE_READY P)\<rparr>"

definition tls_conn_of :: "platform \<Rightarrow> MHD_Connection \<Rightarrow> bool" where
  "tls_conn_of P connection =
     (HTTPS_SUPPORT P \<and> options (daemon connection) AND MHD_USE_TLS P \<noteq> 0)"

definition MHD_send_on_connection ::
  "platform \<Rightarrow> send_env \<Rightarrow> MHD_Connection \<Rightarrow> bytes \<Rightarrow> nat \<Rightarrow> MHD_SendSocketOptions
     \<Rightarrow> int \<times> MHD_Connection \<times> syscall list" where
  "MHD_send_on_connection P env connection buffer buffer_size sso =
     (let s = socket_fd connection;
          tls_conn = tls_conn_of P connection
      in
      if MHD_INVALID_SOCKET P = s \<or> MHD_CONNECTION_CLOSED = state connection
      then (MHD_ERR_NOTCONN P, connection, [])
      else
        (let push_data =
               (case sso of
                  MHD_SSO_PUSH_DATA \<Rightarrow> True
                | MHD_SSO_PREFER_BUFF \<Rightarrow> False
                | MHD_SSO_HDR_CORK \<Rightarrow> buffer_size > 1024);
             (c1, t1) = pre_send_setopt P (pre_answer env) connection (\<not> tls_conn) push_data
         in
         if tls_conn then
           (let buffer_size = (if buffer_size > SSIZE_MAX P then SSIZE_MAX P else buffer_size);
                ret = a_ret (io_answer env);
                t2 = t1 @ [gnutls_record_send (tls_session c1) buffer buffer_size]
            in
            if GNUTLS_E_AGAIN P = ret \<or> GNUTLS_E_INTERRUPTED P = ret then
              (MHD_ERR_AGAIN P,
               (if EPOLL_SUPPORT P \<and> GNUTLS_E_AGAIN P = ret then clear_write_ready P c1 else c1),
               t2)
            else if ret < 0 then (MHD_ERR_NOTCONN P, c1, t2)
            else
              (let (c3, t3) = post_send_setopt P (post_answer env) c1 tls_conn
                                (push_data \<and> buffer_size = to_size_t P ret)
               in (ret, c3, t2 @ t3)))
         else
           (let buffer_size = (if buffer_size > MHD_SCKT_SEND_MAX_SIZE P
                               then MHD_SCKT_SEND_MAX_SIZE P else buffer_size);
                ret = a_ret (io_answer env);
                t2 = t1 @ [MHD_send4 s buffer buffer_size
                             (if MHD_USE_MSG_MORE P then (if push_data then 0 else MSG_MORE P) else 0)]
            in
            if 0 > ret then
              (let err = a_errno (io_answer env) in
               if MHD_SCKT_ERR_IS_EAGAIN P err then
                 (MHD_ERR_AGAIN P, (if EPOLL_SUPPORT P then clear_write_ready P c1 else c1), t2)
               else if MHD_SCKT_ERR_IS_EINTR P err then (MHD_ERR_AGAIN P, c1, t2)
               else if MHD_SCKT_ERR_IS_ECONNRESET P err then (MHD_ERR_CONNRESET P, c1, t2)
               else (MHD_ERR_NOTCONN P, c1, t2))
            else
              (let c2 = (if EPOLL_SUPPORT P \<and> buffer_size > to_size_t P ret
                         then clear_write_ready P c1 else c1);
                   (c3, t3) = post_send_setopt P (post_answer env) c2 tls_conn
                                (push_data \<and> buffer_size = to_size_t P ret)
               in (ret, c3, t2 @ t3)))))"

subsection \<open>\<^verbatim>\<open>MHD_send_on_connection2_\<close>\<close>

definition MHD_send_on_connection2 ::
  "platform \<Rightarrow> send_env \<Rightarrow> MHD_Connection \<Rightarrow> bytes \<Rightarrow> nat \<Rightarrow> bytes \<Rightarrow> nat
     \<Rightarrow> int \<times> MHD_Connection \<times> syscall list" where
  "MHD_send_on_connection2 P env connection header header_size buffer buffer_size =
     (let s = socket_fd connection;
          tls_conn = tls_conn_of P connection
      in
      if HTTPS_SUPPORT P \<and> tls_conn then
        MHD_send_on_connection P env connection header header_size MHD_SSO_HDR_CORK
      else if HAVE_SENDMSG P \<or> HAVE_WRITEV P then
        (let (c1, t1) = pre_send_setopt P (pre_answer env) connection (\<not> tls_conn) True;
             ret = a_ret (io_answer env);
             t2 = t1 @ [if HAVE_SENDMSG P
                        then sendmsg s header header_size buffer buffer_size (MSG_NOSIGNAL_OR_ZERO P)
                        else writev s header header_size buffer buffer_size 2]
         in
         if -1 = ret \<and> EAGAIN P = a_errno (io_answer env) then (MHD_ERR_AGAIN P, c1, t2)
         else
           (let (c3, t3) = post_send_setopt P (post_answer env) c1 (\<not> tls_conn)
                             ((header_size + buffer_size) mod 2 ^ SIZE_T_BITS P = to_size_t P ret)
            in (ret, c3, t2 @ t3)))
      else
        MHD_send_on_connection P env connection header header_size MHD_SSO_HDR_CORK)"

subsection \<open>\<^verbatim>\<open>MHD_send_sendfile_\<close>\<close>

text \<open>
  The function is one body with a platform-specific middle. The middle is
  \<open>sendfile_primitive\<close>: the zero-copy call and the reading of its answer, which stops
  at a failed \<^verbatim>\<open>mhd_assert\<close>, returns at once, or falls through with the byte count.
  The common tail, \<^verbatim>\<open>post_send_setopt\<close> and \<^verbatim>\<open>return ret\<close>, is \<open>sendfile_finish\<close>.
\<close>

datatype sendfile_flow =
    SF_abort
  | SF_return int MHD_Connection
  | SF_continue int MHD_Connection

definition sendfile_call ::
  "platform \<Rightarrow> MHD_Connection \<Rightarrow> int \<Rightarrow> 64 word \<Rightarrow> nat \<Rightarrow> bool \<Rightarrow> syscall" where
  "sendfile_call P connection file_fd offsetu64 send_size used_thr_p_c =
     (case SENDFILE P of
        HAVE_FREEBSD_SENDFILE \<Rightarrow>
          sendfile_freebsd file_fd (socket_fd connection) offsetu64 send_size
            (if SF_FLAGS P
             then (if used_thr_p_c then freebsd_sendfile_flags_thd_p_c P
                   else freebsd_sendfile_flags P)
             else 0)
      | HAVE_DARWIN_SENDFILE \<Rightarrow>
          sendfile_darwin file_fd (socket_fd connection) offsetu64 (int send_size)
      | _ \<Rightarrow>
          (if HAVE_SENDFILE64 P
           then sendfile64 (socket_fd connection) file_fd offsetu64 send_size
           else sendfile (socket_fd connection) file_fd offsetu64 send_size))"

definition linux_solaris_sendfile ::
  "platform \<Rightarrow> sys_answer \<Rightarrow> MHD_Connection \<Rightarrow> nat \<Rightarrow> sendfile_flow" where
  "linux_solaris_sendfile P a connection send_size =
     (let ret = a_ret a in
      if 0 > ret then
        (let err = a_errno a in
         if MHD_SCKT_ERR_IS_EAGAIN P err then
           SF_return (MHD_ERR_AGAIN P)
             (if EPOLL_SUPPORT P then clear_write_ready P connection else connection)
         else if MHD_SCKT_ERR_IS_EINTR P err then SF_return (MHD_ERR_AGAIN P) connection
         else if SENDFILE P = HAVE_LINUX_SENDFILE then
           (if MHD_SCKT_ERR_IS_EBADF P err then SF_return (MHD_ERR_BADF P) connection
            else SF_return (MHD_ERR_AGAIN P) (connection\<lparr>resp_sender := MHD_resp_sender_std\<rparr>))
         else
           (if EAFNOSUPPORT P = err \<or> EINVAL P = err \<or> EOPNOTSUPP P = err then
              SF_return (MHD_ERR_AGAIN P) (connection\<lparr>resp_sender := MHD_resp_sender_std\<rparr>)
            else if ENOTCONN P = err \<or> EPIPE P = err then
              SF_return (MHD_ERR_CONNRESET P) connection
            else SF_return (MHD_ERR_BADF P) connection))
      else
        SF_continue ret
          (if EPOLL_SUPPORT P \<and> send_size > to_size_t P ret
           then clear_write_ready P connection else connection))"

definition freebsd_sendfile ::
  "platform \<Rightarrow> sys_answer \<Rightarrow> MHD_Connection \<Rightarrow> sendfile_flow" where
  "freebsd_sendfile P a connection =
     (let sent_bytes = a_out a in
      if 0 \<noteq> a_ret a then
        (let err = a_errno a in
         if MHD_SCKT_ERR_IS_EAGAIN P err \<or> MHD_SCKT_ERR_IS_EINTR P err \<or> EBUSY P = err then
           (if \<not> mhd_assert P (int (SSIZE_MAX P) \<ge> sent_bytes) then SF_abort
            else if 0 \<noteq> sent_bytes then SF_return sent_bytes connection
            else SF_return (MHD_ERR_AGAIN P) connection)
         else SF_return (MHD_ERR_AGAIN P) (connection\<lparr>resp_sender := MHD_resp_sender_std\<rparr>))
      else if \<not> mhd_assert P (0 < sent_bytes) then SF_abort
      else if \<not> mhd_assert P (int (SSIZE_MAX P) \<ge> sent_bytes) then SF_abort
      else SF_continue sent_bytes connection)"

definition darwin_sendfile ::
  "platform \<Rightarrow> sys_answer \<Rightarrow> MHD_Connection \<Rightarrow> nat \<Rightarrow> sendfile_flow" where
  "darwin_sendfile P a connection send_size =
     (let len = a_out a;
          len_asserts = (mhd_assert P (0 \<le> len) \<and> mhd_assert P (int (SSIZE_MAX P) \<ge> len)
                         \<and> mhd_assert P (send_size \<ge> to_size_t P len))
      in
      if 0 \<noteq> a_ret a then
        (let err = a_errno a in
         if MHD_SCKT_ERR_IS_EAGAIN P err \<or> MHD_SCKT_ERR_IS_EINTR P err then
           (if \<not> len_asserts then SF_abort
            else if 0 \<noteq> len then SF_return len connection
            else SF_return (MHD_ERR_AGAIN P) connection)
         else if ENOTCONN P = err \<or> EPIPE P = err then SF_return (MHD_ERR_CONNRESET P) connection
         else if ENOTSUP P = err \<or> EOPNOTSUPP P = err then
           SF_return (MHD_ERR_AGAIN P) (connection\<lparr>resp_sender := MHD_resp_sender_std\<rparr>)
         else SF_return (MHD_ERR_BADF P) connection)
      else if \<not> len_asserts then SF_abort
      else SF_continue len connection)"

definition sendfile_chunk_size :: "platform \<Rightarrow> MHD_Connection \<Rightarrow> nat" where
  "sendfile_chunk_size P connection =
     (let used_thr_p_c = (0 \<noteq> options (daemon connection) AND MHD_USE_THREAD_PER_CONNECTION P)
      in to_size_t P (int (if used_thr_p_c then MHD_SENFILE_CHUNK_THR_P_C else MHD_SENFILE_CHUNK)))"

definition max_off_t :: "platform \<Rightarrow> 64 word" where
  "max_off_t P = (if HAVE_SENDFILE64 P then OFF64_T_MAX P else OFF_T_MAX P)"

definition sendfile_primitive ::
  "platform \<Rightarrow> sys_answer \<Rightarrow> MHD_Connection \<Rightarrow> nat \<Rightarrow> sendfile_flow" where
  "sendfile_primitive P a connection send_size =
     (case SENDFILE P of
        HAVE_FREEBSD_SENDFILE \<Rightarrow> freebsd_sendfile P a connection
      | HAVE_DARWIN_SENDFILE \<Rightarrow> darwin_sendfile P a connection send_size
      | _ \<Rightarrow> linux_solaris_sendfile P a connection send_size)"

definition sendfile_finish ::
  "platform \<Rightarrow> sys_answer \<Rightarrow> 64 word \<Rightarrow> syscall list \<Rightarrow> sendfile_flow
     \<Rightarrow> (int \<times> MHD_Connection) option \<times> syscall list" where
  "sendfile_finish P a left t2 fl =
     (case fl of
        SF_abort \<Rightarrow> (None, t2)
      | SF_return r c2 \<Rightarrow> (Some (r, c2), t2)
      | SF_continue ret c2 \<Rightarrow>
          (let (c3, t3) = post_send_setopt P a c2 False (left = of_int ret)
           in (Some (ret, c3), t2 @ t3)))"

definition MHD_send_sendfile ::
  "platform \<Rightarrow> send_env \<Rightarrow> MHD_Connection \<Rightarrow> (int \<times> MHD_Connection) option \<times> syscall list" where
  "MHD_send_sendfile P env connection =
     (let file_fd = fd (response connection);
          used_thr_p_c = (0 \<noteq> options (daemon connection) AND MHD_USE_THREAD_PER_CONNECTION P);
          chunk_size = sendfile_chunk_size P connection
      in
      if \<not> mhd_assert P (MHD_resp_sender_sendfile = resp_sender connection) then (None, [])
      else if \<not> mhd_assert P (0 = options (daemon connection) AND MHD_USE_TLS P) then (None, [])
      else
        (let (c1, t1) = pre_send_setopt P (pre_answer env) connection False True;
             offsetu64 = response_write_position c1 + fd_off (response c1);
             left = total_size (response c1) - response_write_position c1;
             send_size = (if unat left > chunk_size then chunk_size else to_size_t P (uint left))
         in
         if max_off_t P < offsetu64 then
           (Some (MHD_ERR_AGAIN P, c1\<lparr>resp_sender := MHD_resp_sender_std\<rparr>), t1)
         else
           sendfile_finish P (post_answer env) left
             (t1 @ [sendfile_call P c1 file_fd offsetu64 send_size used_thr_p_c])
             (sendfile_primitive P (io_answer env) c1 send_size)))"

text \<open>
  The result is \<open>None\<close> where a build with assertions stops the program at a failed
  \<^verbatim>\<open>mhd_assert\<close>; the calls made until then are still listed. With \<open>NDEBUG\<close> the
  assertions are empty and the function always returns.
\<close>

subsection \<open>Reading the list of calls\<close>

text \<open>The byte count a call asks the system to move, for the calls that move bytes.\<close>

fun requested_len :: "syscall \<Rightarrow> nat option" where
  "requested_len (MHD_send4 s b n f) = Some n"
| "requested_len (gnutls_record_send h b n) = Some n"
| "requested_len (sendmsg s h hn b bn f) = Some (hn + bn)"
| "requested_len (writev s h hn b bn c) = Some (hn + bn)"
| "requested_len (sendfile s f off n) = Some n"
| "requested_len (sendfile64 s f off n) = Some n"
| "requested_len (sendfile_freebsd f s off n fl) = Some n"
| "requested_len (sendfile_darwin f s off n) = Some (nat n)"
| "requested_len _ = None"

fun is_zero_copy :: "syscall \<Rightarrow> bool" where
  "is_zero_copy (sendfile s f off n) = True"
| "is_zero_copy (sendfile64 s f off n) = True"
| "is_zero_copy (sendfile_freebsd f s off n fl) = True"
| "is_zero_copy (sendfile_darwin f s off n) = True"
| "is_zero_copy _ = False"

text \<open>When the zero-copy call counts as failed: a non-zero return on FreeBSD and Darwin,
  a negative one on Linux and Solaris.\<close>

definition sendfile_failed :: "platform \<Rightarrow> sys_answer \<Rightarrow> bool" where
  "sendfile_failed P a =
     (case SENDFILE P of
        HAVE_FREEBSD_SENDFILE \<Rightarrow> 0 \<noteq> a_ret a
      | HAVE_DARWIN_SENDFILE \<Rightarrow> 0 \<noteq> a_ret a
      | _ \<Rightarrow> 0 > a_ret a)"

subsection \<open>Sample platforms and a sample connection\<close>

text \<open>
  The numbers are those of Linux on x86-64 and of the library's own headers. The other
  three samples change the build switches only and keep the numbers, which is all the
  evaluations below need.
\<close>

definition linux_platform :: platform where
  "linux_platform =
     \<lparr>MHD_USE_MSG_MORE = True, MHD_TCP_CORK_NOPUSH = True, HTTPS_SUPPORT = True,
      EPOLL_SUPPORT = True, HAVE_MESSAGES = True, HAVE_SENDMSG = True, HAVE_WRITEV = True,
      HAVE_SENDFILE64 = True, SENDFILE = HAVE_LINUX_SENDFILE, SF_FLAGS = False,
      NDEBUG = False, SIZE_T_BITS = 64, SSIZE_MAX = 0x7FFFFFFFFFFFFFFF,
      MHD_SCKT_SEND_MAX_SIZE = 0x7FFFFFFFFFFFFFFF,
      OFF_T_MAX = 0x7FFFFFFFFFFFFFFF, OFF64_T_MAX = 0x7FFFFFFFFFFFFFFF,
      MSG_MORE = 0x8000, MSG_NOSIGNAL_OR_ZERO = 0x4000, MHD_INVALID_SOCKET = -1,
      MHD_USE_TLS = 2, MHD_USE_THREAD_PER_CONNECTION = 4, MHD_EPOLL_STATE_WRITE_READY = 2,
      GNUTLS_E_AGAIN = -28, GNUTLS_E_INTERRUPTED = -52,
      MHD_ERR_AGAIN = -3073, MHD_ERR_CONNRESET = -3074, MHD_ERR_NOTCONN = -3075,
      MHD_ERR_BADF = -3077,
      MHD_SCKT_ERR_IS_EAGAIN = (\<lambda>err. err = 11), MHD_SCKT_ERR_IS_EINTR = (\<lambda>err. err = 4),
      MHD_SCKT_ERR_IS_ECONNRESET = (\<lambda>err. err = 104), MHD_SCKT_ERR_IS_EBADF = (\<lambda>err. err = 9),
      EAGAIN = 11, ENOTSOCK = 88, EBADF = 9, EINVAL = 22, EFAULT = 14, ENOPROTOOPT = 92,
      EAFNOSUPPORT = 97, EOPNOTSUPP = 95, ENOTSUP = 95, ENOTCONN = 107, EPIPE = 32, EBUSY = 16,
      freebsd_sendfile_flags = 0, freebsd_sendfile_flags_thd_p_c = 0\<rparr>"

definition solaris_platform :: platform where
  "solaris_platform =
     linux_platform\<lparr>MHD_USE_MSG_MORE := False, MHD_TCP_CORK_NOPUSH := False,
                    EPOLL_SUPPORT := False, SENDFILE := HAVE_SOLARIS_SENDFILE\<rparr>"

definition freebsd_platform :: platform where
  "freebsd_platform =
     linux_platform\<lparr>MHD_USE_MSG_MORE := False, EPOLL_SUPPORT := False, HAVE_SENDFILE64 := False,
                    SENDFILE := HAVE_FREEBSD_SENDFILE, SF_FLAGS := True,
                    freebsd_sendfile_flags := 0x200001, freebsd_sendfile_flags_thd_p_c := 0x2000001\<rparr>"

definition darwin_platform :: platform where
  "darwin_platform =
     linux_platform\<lparr>MHD_USE_MSG_MORE := False, EPOLL_SUPPORT := False, HAVE_SENDFILE64 := False,
                    SENDFILE := HAVE_DARWIN_SENDFILE\<rparr>"

definition conn0 :: MHD_Connection where
  "conn0 =
     \<lparr>daemon = \<lparr>options = 0\<rparr>,
      response = \<lparr>fd = 7, fd_off = 0, total_size = 1000000\<rparr>,
      socket_fd = 5, tls_session = 0, state = MHD_CONNECTION_OTHER 0,
      sk_corked = False, sk_nodelay = False, epoll_state = 3,
      resp_sender = MHD_resp_sender_sendfile, response_write_position = 0\<rparr>"

definition answer :: "int \<Rightarrow> int \<Rightarrow> int \<Rightarrow> sys_answer" where
  "answer r e out = \<lparr>a_ret = r, a_errno = e, a_out = out\<rparr>"

definition env_of :: "sys_answer \<Rightarrow> send_env" where
  "env_of a = \<lparr>pre_answer = answer 0 0 0, io_answer = a, post_answer = answer 0 0 0\<rparr>"

subsection \<open>Vocabulary for the properties\<close>

text \<open>
  The two assertions at the head of \<^verbatim>\<open>MHD_send_sendfile_\<close>: the connection is on the
  sendfile path and the daemon does not use TLS. They hold in every build with
  \<open>NDEBUG\<close>, and otherwise say that the caller kept the function's precondition.
\<close>

definition sendfile_entry_asserts :: "platform \<Rightarrow> MHD_Connection \<Rightarrow> bool" where
  "sendfile_entry_asserts P c =
     (mhd_assert P (MHD_resp_sender_sendfile = resp_sender c)
      \<and> mhd_assert P (0 = options (daemon c) AND MHD_USE_TLS P))"

text \<open>The locals \<^verbatim>\<open>offsetu64\<close>, \<^verbatim>\<open>left\<close> and \<^verbatim>\<open>send_size\<close> of \<^verbatim>\<open>MHD_send_sendfile_\<close>.\<close>

definition offsetu64_of :: "MHD_Connection \<Rightarrow> 64 word" where
  "offsetu64_of c = response_write_position c + fd_off (response c)"

definition left_of :: "MHD_Connection \<Rightarrow> 64 word" where
  "left_of c = total_size (response c) - response_write_position c"

definition send_size_of :: "platform \<Rightarrow> MHD_Connection \<Rightarrow> nat" where
  "send_size_of P c =
     (if unat (left_of c) > sendfile_chunk_size P c then sendfile_chunk_size P c
      else to_size_t P (uint (left_of c)))"

text \<open>
  \<open>touches_only P c c'\<close>: connection \<open>c'\<close> differs from \<open>c\<close> at most in the two cached
  buffering flags, in the write-ready bit of \<open>epoll_state\<close>, and in \<open>resp_sender\<close>,
  which is either kept or set to \<open>MHD_resp_sender_std\<close>.
\<close>

definition touches_only :: "platform \<Rightarrow> MHD_Connection \<Rightarrow> MHD_Connection \<Rightarrow> bool" where
  "touches_only P c c' =
     (daemon c' = daemon c \<and> response c' = response c \<and> socket_fd c' = socket_fd c
      \<and> tls_session c' = tls_session c \<and> state c' = state c
      \<and> response_write_position c' = response_write_position c
      \<and> (resp_sender c' = resp_sender c \<or> resp_sender c' = MHD_resp_sender_std)
      \<and> (epoll_state c' = epoll_state c
           \<or> epoll_state c' = epoll_state c AND NOT (MHD_EPOLL_STATE_WRITE_READY P)))"

definition flow_touches :: "platform \<Rightarrow> MHD_Connection \<Rightarrow> sendfile_flow \<Rightarrow> bool" where
  "flow_touches P c fl =
     (case fl of SF_abort \<Rightarrow> True
      | SF_return r c' \<Rightarrow> touches_only P c c'
      | SF_continue r c' \<Rightarrow> touches_only P c c')"

definition result_touches ::
  "platform \<Rightarrow> MHD_Connection \<Rightarrow> (int \<times> MHD_Connection) option \<Rightarrow> bool" where
  "result_touches P c res = (case res of None \<Rightarrow> True | Some (r, c') \<Rightarrow> touches_only P c c')"

text \<open>The value a flow hands back to the caller, if any.\<close>

definition flow_code :: "sendfile_flow \<Rightarrow> int option" where
  "flow_code fl =
     (case fl of SF_abort \<Rightarrow> None | SF_return r x \<Rightarrow> Some r | SF_continue r x \<Rightarrow> Some r)"

text \<open>
  A caller's sequence of calls into this file on one connection. Each call comes with
  the answers the system gives during it; the connection a call leaves behind is the one
  the next call starts from. A call stopped by an assertion ends the run.
\<close>

datatype layer_call =
    Call_send_on_connection send_env bytes nat MHD_SendSocketOptions
  | Call_send_on_connection2 send_env bytes nat bytes nat
  | Call_send_sendfile send_env

fun call_layer :: "platform \<Rightarrow> layer_call \<Rightarrow> MHD_Connection \<Rightarrow> MHD_Connection option" where
  "call_layer P (Call_send_on_connection env b n sso) c =
     Some (fst (snd (MHD_send_on_connection P env c b n sso)))"
| "call_layer P (Call_send_on_connection2 env h hn b bn) c =
     Some (fst (snd (MHD_send_on_connection2 P env c h hn b bn)))"
| "call_layer P (Call_send_sendfile env) c =
     map_option snd (fst (MHD_send_sendfile P env c))"

fun run_calls :: "platform \<Rightarrow> layer_call list \<Rightarrow> MHD_Connection \<Rightarrow> MHD_Connection option" where
  "run_calls P [] c = Some c"
| "run_calls P (x # xs) c =
     (case call_layer P x c of None \<Rightarrow> None | Some c' \<Rightarrow> run_calls P xs c')"

section \<open>Auxiliary facts\<close>

lemmas sample_defs =
  linux_platform_def solaris_platform_def freebsd_platform_def darwin_platform_def
  conn0_def answer_def env_of_def

lemmas model_defs =
  MHD_send_on_connection_def MHD_send_on_connection2_def MHD_send_sendfile_def
  pre_send_setopt_def post_send_setopt_def cork_errno_switch_def clear_write_ready_def
  tls_conn_of_def sendfile_call_def sendfile_primitive_def sendfile_finish_def
  linux_solaris_sendfile_def freebsd_sendfile_def darwin_sendfile_def
  sendfile_chunk_size_def max_off_t_def to_size_t_def mhd_assert_def
  MHD_SENFILE_CHUNK_def MHD_SENFILE_CHUNK_THR_P_C_def

subsection \<open>What the two option hooks can do to a connection\<close>

lemma pre_send_setopt_conn:
  "fst (pre_send_setopt P a c ps pd) = c
   \<or> fst (pre_send_setopt P a c ps pd) = c\<lparr>sk_corked := \<not> pd\<rparr>
   \<or> fst (pre_send_setopt P a c ps pd) = c\<lparr>sk_nodelay := pd\<rparr>"
  by (simp add: pre_send_setopt_def Let_def)

lemma post_send_setopt_conn:
  "fst (post_send_setopt P a c ps pd) = c
   \<or> fst (post_send_setopt P a c ps pd) = c\<lparr>sk_corked := \<not> pd\<rparr>"
  by (simp add: post_send_setopt_def Let_def)

lemma pre_send_setopt_fields:
  "response_write_position (fst (pre_send_setopt P a c ps pd)) = response_write_position c"
  "response (fst (pre_send_setopt P a c ps pd)) = response c"
  "resp_sender (fst (pre_send_setopt P a c ps pd)) = resp_sender c"
  "socket_fd (fst (pre_send_setopt P a c ps pd)) = socket_fd c"
  "epoll_state (fst (pre_send_setopt P a c ps pd)) = epoll_state c"
  using pre_send_setopt_conn [of P a c ps pd] by auto

lemma pre_send_setopt_moves_nothing:
  "ev \<in> set (snd (pre_send_setopt P a c ps pd)) \<Longrightarrow> requested_len ev = None"
  by (auto simp: pre_send_setopt_def cork_errno_switch_def Let_def split: if_splits)

lemma pre_send_setopt_no_zero_copy:
  "filter is_zero_copy (snd (pre_send_setopt P a c ps pd)) = []"
  by (simp add: pre_send_setopt_def cork_errno_switch_def Let_def)

lemma post_send_setopt_no_zero_copy:
  "filter is_zero_copy (snd (post_send_setopt P a c ps pd)) = []"
  by (simp add: post_send_setopt_def cork_errno_switch_def Let_def)

subsection \<open>Frame of every function\<close>

lemma touches_only_refl: "touches_only P c c"
  by (simp add: touches_only_def)

lemma touches_only_trans:
  "touches_only P c c1 \<Longrightarrow> touches_only P c1 c2 \<Longrightarrow> touches_only P c c2"
  by (auto simp: touches_only_def)

lemma pre_send_setopt_touches: "touches_only P c (fst (pre_send_setopt P a c ps pd))"
  using pre_send_setopt_conn [of P a c ps pd] by (auto simp: touches_only_def)

lemma post_send_setopt_touches: "touches_only P c (fst (post_send_setopt P a c ps pd))"
  using post_send_setopt_conn [of P a c ps pd] by (auto simp: touches_only_def)

lemma clear_write_ready_touches: "touches_only P c (clear_write_ready P c)"
  by (simp add: touches_only_def clear_write_ready_def)

lemma downgrade_touches: "touches_only P c (c\<lparr>resp_sender := MHD_resp_sender_std\<rparr>)"
  by (simp add: touches_only_def)

lemma touches_only_post:
  "touches_only P c c1 \<Longrightarrow> touches_only P c (fst (post_send_setopt P a c1 ps pd))"
  by (rule touches_only_trans [OF _ post_send_setopt_touches])

lemma touches_only_clear:
  "touches_only P c c1 \<Longrightarrow> touches_only P c (clear_write_ready P c1)"
  by (rule touches_only_trans [OF _ clear_write_ready_touches])

lemma MHD_send_on_connection_touches:
  "touches_only P c (fst (snd (MHD_send_on_connection P env c buffer n sso)))"
  by (simp add: MHD_send_on_connection_def Let_def split_beta touches_only_refl
      pre_send_setopt_touches touches_only_post touches_only_clear)

lemma MHD_send_on_connection2_touches:
  "touches_only P c (fst (snd (MHD_send_on_connection2 P env c h hn b bn)))"
  by (simp add: MHD_send_on_connection2_def Let_def split_beta touches_only_refl
      pre_send_setopt_touches touches_only_post MHD_send_on_connection_touches)

lemma linux_solaris_sendfile_touches:
  "flow_touches P c (linux_solaris_sendfile P a c n)"
  by (simp add: linux_solaris_sendfile_def flow_touches_def Let_def touches_only_refl
      clear_write_ready_touches downgrade_touches)

lemma freebsd_sendfile_touches: "flow_touches P c (freebsd_sendfile P a c)"
  by (simp add: freebsd_sendfile_def flow_touches_def Let_def touches_only_refl
      downgrade_touches)

lemma darwin_sendfile_touches: "flow_touches P c (darwin_sendfile P a c n)"
  by (simp add: darwin_sendfile_def flow_touches_def Let_def touches_only_refl
      downgrade_touches)

lemma sendfile_primitive_touches: "flow_touches P c (sendfile_primitive P a c n)"
  by (cases "SENDFILE P")
     (simp_all add: sendfile_primitive_def linux_solaris_sendfile_touches
        freebsd_sendfile_touches darwin_sendfile_touches)

lemma sendfile_finish_touches:
  assumes "touches_only P c c1" and "flow_touches P c1 fl"
  shows "result_touches P c (fst (sendfile_finish P a left t2 fl))"
  using assms
  by (cases fl)
     (auto simp: sendfile_finish_def flow_touches_def result_touches_def split_beta
           intro: touches_only_trans touches_only_post)

lemma MHD_send_sendfile_touches:
  "result_touches P c (fst (MHD_send_sendfile P env c))"
proof -
  let ?c1 = "fst (pre_send_setopt P (pre_answer env) c False True)"
  have c1: "touches_only P c ?c1" by (rule pre_send_setopt_touches)
  have down: "result_touches P c (Some (r, ?c1\<lparr>resp_sender := MHD_resp_sender_std\<rparr>))" for r
    using touches_only_trans [OF c1 downgrade_touches] by (simp add: result_touches_def)
  have none: "result_touches P c None" by (simp add: result_touches_def)
  show ?thesis
    unfolding MHD_send_sendfile_def Let_def split_beta
    using down none sendfile_finish_touches [OF c1 sendfile_primitive_touches]
    by simp
qed

subsection \<open>\<^verbatim>\<open>MHD_send_sendfile_\<close> once its entry assertions hold\<close>

lemma MHD_send_sendfile_eq:
  assumes "sendfile_entry_asserts P c"
  shows "MHD_send_sendfile P env c =
           (let c1 = fst (pre_send_setopt P (pre_answer env) c False True);
                t1 = snd (pre_send_setopt P (pre_answer env) c False True)
            in if max_off_t P < offsetu64_of c
               then (Some (MHD_ERR_AGAIN P, c1\<lparr>resp_sender := MHD_resp_sender_std\<rparr>), t1)
               else sendfile_finish P (post_answer env) (left_of c)
                      (t1 @ [sendfile_call P c1 (fd (response c)) (offsetu64_of c)
                               (send_size_of P c)
                               (0 \<noteq> options (daemon c) AND MHD_USE_THREAD_PER_CONNECTION P)])
                      (sendfile_primitive P (io_answer env) c1 (send_size_of P c)))"
  using assms
  by (simp add: MHD_send_sendfile_def sendfile_entry_asserts_def Let_def split_beta
      pre_send_setopt_fields offsetu64_of_def left_of_def send_size_of_def)

subsection \<open>Sequences of calls\<close>

lemma call_layer_touches: "call_layer P x c = Some c' \<Longrightarrow> touches_only P c c'"
proof (cases x)
  case (Call_send_on_connection env b n sso)
  assume "call_layer P x c = Some c'"
  with Call_send_on_connection show ?thesis
    using MHD_send_on_connection_touches [of P c env b n sso] by auto
next
  case (Call_send_on_connection2 env h hn b bn)
  assume "call_layer P x c = Some c'"
  with Call_send_on_connection2 show ?thesis
    using MHD_send_on_connection2_touches [of P c env h hn b bn] by auto
next
  case (Call_send_sendfile env)
  assume "call_layer P x c = Some c'"
  with Call_send_sendfile show ?thesis
    using MHD_send_sendfile_touches [of P c env]
    by (auto simp: result_touches_def)
qed

lemma run_calls_keeps_std:
  "resp_sender c = MHD_resp_sender_std \<Longrightarrow> run_calls P xs c = Some c'
     \<Longrightarrow> resp_sender c' = MHD_resp_sender_std"
proof (induction xs arbitrary: c)
  case Nil
  then show ?case by simp
next
  case (Cons x xs)
  from Cons.prems(2) obtain c1 where
    step: "call_layer P x c = Some c1" and rest: "run_calls P xs c1 = Some c'"
    by (auto split: option.splits)
  from call_layer_touches [OF step] Cons.prems(1)
  have "resp_sender c1 = MHD_resp_sender_std" by (auto simp: touches_only_def)
  from Cons.IH [OF this rest] show ?case .
qed

subsection \<open>Builds without assertions always return\<close>

lemma sendfile_entry_asserts_NDEBUG: "NDEBUG P \<Longrightarrow> sendfile_entry_asserts P c"
  by (simp add: sendfile_entry_asserts_def mhd_assert_def)

lemma sendfile_primitive_NDEBUG: "NDEBUG P \<Longrightarrow> sendfile_primitive P a c n \<noteq> SF_abort"
  by (cases "SENDFILE P")
     (simp_all add: sendfile_primitive_def linux_solaris_sendfile_def freebsd_sendfile_def
        darwin_sendfile_def mhd_assert_def Let_def)

lemma sendfile_finish_returns: "fl \<noteq> SF_abort \<Longrightarrow> fst (sendfile_finish P a left t2 fl) \<noteq> None"
  by (cases fl) (simp_all add: sendfile_finish_def split_beta)

lemma MHD_send_sendfile_NDEBUG:
  assumes "NDEBUG P"
  shows "fst (MHD_send_sendfile P env c) \<noteq> None"
  using sendfile_finish_returns [OF sendfile_primitive_NDEBUG [OF assms]]
  by (simp add: MHD_send_sendfile_eq [OF sendfile_entry_asserts_NDEBUG [OF assms]] Let_def)

subsection \<open>The return value does not depend on the option hooks\<close>

lemma sendfile_primitive_code:
  "flow_code (sendfile_primitive P a c n) = flow_code (sendfile_primitive P a c' n)"
  by (cases "SENDFILE P")
     (simp_all add: sendfile_primitive_def flow_code_def linux_solaris_sendfile_def
        freebsd_sendfile_def darwin_sendfile_def Let_def)

lemma sendfile_finish_code:
  "map_option fst (fst (sendfile_finish P a left t2 fl)) = flow_code fl"
  by (cases fl) (simp_all add: sendfile_finish_def flow_code_def split_beta)

lemma MHD_send_sendfile_code_indep:
  "map_option fst (fst (MHD_send_sendfile P (env\<lparr>pre_answer := a1, post_answer := a2\<rparr>) c))
   = map_option fst (fst (MHD_send_sendfile P env c))"
  by (simp add: MHD_send_sendfile_def Let_def split_beta pre_send_setopt_fields
      sendfile_finish_code
      sendfile_primitive_code [of P "io_answer env"
         "fst (pre_send_setopt P a1 c False True)" _
         "fst (pre_send_setopt P (pre_answer env) c False True)"])

lemma MHD_send_on_connection_code_indep:
  "fst (MHD_send_on_connection P (env\<lparr>pre_answer := a1, post_answer := a2\<rparr>) c buffer n sso)
   = fst (MHD_send_on_connection P env c buffer n sso)"
  by (simp add: MHD_send_on_connection_def Let_def split_beta)

lemma MHD_send_on_connection2_code_indep:
  "fst (MHD_send_on_connection2 P (env\<lparr>pre_answer := a1, post_answer := a2\<rparr>) c h hn b bn)
   = fst (MHD_send_on_connection2 P env c h hn b bn)"
  by (simp add: MHD_send_on_connection2_def Let_def split_beta
      MHD_send_on_connection_code_indep)

subsection \<open>The zero-copy call in the list of calls\<close>

lemma sendfile_finish_return:
  "sendfile_finish P a left t2 (SF_return r c2) = (Some (r, c2), t2)"
  by (simp add: sendfile_finish_def)

lemma sendfile_finish_zero_copy:
  "filter is_zero_copy (snd (sendfile_finish P a left t2 fl)) = filter is_zero_copy t2"
  by (cases fl) (simp_all add: sendfile_finish_def split_beta post_send_setopt_no_zero_copy)

lemma sendfile_call_len:
  "is_zero_copy (sendfile_call P c f off n thr)"
  "requested_len (sendfile_call P c f off n thr) = Some n"
  by (cases "SENDFILE P"; simp add: sendfile_call_def)+

lemma chunk_fits:
  assumes "22 \<le> SIZE_T_BITS P"
  shows "to_size_t P (int MHD_SENFILE_CHUNK_THR_P_C) = 0x200000"
    and "to_size_t P (int MHD_SENFILE_CHUNK) = 0x20000"
proof -
  have "(2::int) ^ 22 \<le> 2 ^ SIZE_T_BITS P"
    using assms by (rule power_increasing) simp
  then have big: "(4194304::int) \<le> 2 ^ SIZE_T_BITS P" by simp
  then show "to_size_t P (int MHD_SENFILE_CHUNK_THR_P_C) = 0x200000"
    and "to_size_t P (int MHD_SENFILE_CHUNK) = 0x20000"
    by (simp_all add: to_size_t_def MHD_SENFILE_CHUNK_THR_P_C_def MHD_SENFILE_CHUNK_def)
qed

lemma sendfile_chunk_size_value:
  assumes "22 \<le> SIZE_T_BITS P"
  shows "sendfile_chunk_size P c =
           (if options (daemon c) AND MHD_USE_THREAD_PER_CONNECTION P \<noteq> 0
            then 0x200000 else 0x20000)"
  using chunk_fits [OF assms] by (auto simp: sendfile_chunk_size_def Let_def)

lemma send_size_value:
  assumes "22 \<le> SIZE_T_BITS P"
  shows "send_size_of P c = min (unat (left_of c)) (sendfile_chunk_size P c)"
proof (cases "unat (left_of c) > sendfile_chunk_size P c")
  case True
  then show ?thesis by (simp add: send_size_of_def)
next
  case False
  have "(2::int) ^ 22 \<le> 2 ^ SIZE_T_BITS P"
    using assms by (rule power_increasing) simp
  then have big: "(4194304::int) \<le> 2 ^ SIZE_T_BITS P" by simp
  have "sendfile_chunk_size P c \<le> 0x200000"
    using sendfile_chunk_size_value [OF assms, of c] by (simp split: if_splits)
  with False have "int (unat (left_of c)) < 2 ^ SIZE_T_BITS P"
    using big by linarith
  then have "to_size_t P (uint (left_of c)) = unat (left_of c)"
    by (simp add: to_size_t_def)
  with False show ?thesis by (simp add: send_size_of_def)
qed

subsection \<open>The header threshold of \<^verbatim>\<open>MHD_send_on_connection_\<close>\<close>

text \<open>
  With \<^verbatim>\<open>MHD_SSO_HDR_CORK\<close> the function does exactly what it does with
  \<^verbatim>\<open>MHD_SSO_PUSH_DATA\<close> if the byte count is greater than 1024, and exactly what it does
  with \<^verbatim>\<open>MHD_SSO_PREFER_BUFF\<close> otherwise. In a build without \<^verbatim>\<open>MSG_MORE\<close> and without
  cork, on a connection with Nagle's algorithm on, the first call is then
  \<^verbatim>\<open>MHD_socket_set_nodelay_ (s, true)\<close> exactly when the count exceeds 1024; in a build
  with \<^verbatim>\<open>MSG_MORE\<close> a plaintext send carries flag \<open>0\<close> when the count exceeds 1024 and
  \<^verbatim>\<open>MSG_MORE\<close> otherwise.
\<close>

lemma hdr_cork_threshold:
  "MHD_send_on_connection P env c buffer n MHD_SSO_HDR_CORK
     = (if n > 1024 then MHD_send_on_connection P env c buffer n MHD_SSO_PUSH_DATA
        else MHD_send_on_connection P env c buffer n MHD_SSO_PREFER_BUFF)
   \<and> MHD_send_on_connection P env c buffer 2000 MHD_SSO_HDR_CORK
     = MHD_send_on_connection P env c buffer 2000 MHD_SSO_PUSH_DATA
   \<and> MHD_send_on_connection P env c buffer 1024 MHD_SSO_HDR_CORK
     = MHD_send_on_connection P env c buffer 1024 MHD_SSO_PREFER_BUFF
   \<and> (\<not> MHD_USE_MSG_MORE P \<and> \<not> MHD_TCP_CORK_NOPUSH P \<and> \<not> sk_nodelay c
       \<and> MHD_INVALID_SOCKET P \<noteq> socket_fd c \<and> MHD_CONNECTION_CLOSED \<noteq> state c \<longrightarrow>
      (take 1 (snd (snd (MHD_send_on_connection P env c buffer n MHD_SSO_HDR_CORK)))
         = [MHD_socket_set_nodelay (socket_fd c) True]) = (n > 1024))
   \<and> (MHD_USE_MSG_MORE P \<and> \<not> tls_conn_of P c
       \<and> MHD_INVALID_SOCKET P \<noteq> socket_fd c \<and> MHD_CONNECTION_CLOSED \<noteq> state c \<longrightarrow>
      take 1 (snd (snd (MHD_send_on_connection P env c buffer n MHD_SSO_HDR_CORK)))
         = [MHD_send4 (socket_fd c) buffer (min n (MHD_SCKT_SEND_MAX_SIZE P))
              (if n > 1024 then 0 else MSG_MORE P)])"
  by (simp add: MHD_send_on_connection_def pre_send_setopt_def Let_def split_beta min_def)

section \<open>The claims\<close>

text \<open>
  \<^bold>\<open>C1\<close>, as the code has it. A plaintext \<^verbatim>\<open>MHD_send_on_connection_\<close> on a valid, open
  connection whose \<^verbatim>\<open>MHD_send4_\<close> fails returns a code fixed by the error number alone,
  tested in this order: \<^verbatim>\<open>MHD_ERR_AGAIN_\<close> if the error is classified as EAGAIN, the same
  \<^verbatim>\<open>MHD_ERR_AGAIN_\<close> if it is classified as EINTR, \<^verbatim>\<open>MHD_ERR_CONNRESET_\<close> if it is
  ECONNRESET, and \<^verbatim>\<open>MHD_ERR_NOTCONN_\<close> otherwise. So an error classified as EAGAIN or
  EINTR never yields a fatal code. The two retry cases share one return code; they
  differ only in that EAGAIN also clears the write-ready bit of \<open>epoll_state\<close>, and only
  in a build with epoll support.
\<close>

theorem C1_plain_send_errors:
  assumes "MHD_INVALID_SOCKET P \<noteq> socket_fd c"
    and "MHD_CONNECTION_CLOSED \<noteq> state c"
    and "\<not> tls_conn_of P c"
    and "a_ret (io_answer env) < 0"
  shows "fst (MHD_send_on_connection P env c buffer n sso)
           = (if MHD_SCKT_ERR_IS_EAGAIN P (a_errno (io_answer env))
                 \<or> MHD_SCKT_ERR_IS_EINTR P (a_errno (io_answer env)) then MHD_ERR_AGAIN P
              else if MHD_SCKT_ERR_IS_ECONNRESET P (a_errno (io_answer env))
              then MHD_ERR_CONNRESET P
              else MHD_ERR_NOTCONN P)
         \<and> epoll_state (fst (snd (MHD_send_on_connection P env c buffer n sso)))
           = (if EPOLL_SUPPORT P \<and> MHD_SCKT_ERR_IS_EAGAIN P (a_errno (io_answer env))
              then epoll_state c AND NOT (MHD_EPOLL_STATE_WRITE_READY P)
              else epoll_state c)"
  using assms
  by (simp add: MHD_send_on_connection_def Let_def split_beta clear_write_ready_def
      pre_send_setopt_fields)

theorem C1_plain_send_errors_witness:
  "MHD_INVALID_SOCKET linux_platform \<noteq> socket_fd conn0
   \<and> MHD_CONNECTION_CLOSED \<noteq> state conn0
   \<and> \<not> tls_conn_of linux_platform conn0
   \<and> a_ret (io_answer (env_of (answer (-1) 104 0))) < 0
   \<and> MHD_SCKT_ERR_IS_ECONNRESET linux_platform 104
   \<and> fst (MHD_send_on_connection linux_platform (env_of (answer (-1) 104 0)) conn0 [1, 2, 3] 3
           MHD_SSO_PUSH_DATA) = MHD_ERR_CONNRESET linux_platform
   \<and> epoll_state (fst (snd (MHD_send_on_connection linux_platform
           (env_of (answer (-1) 104 0)) conn0 [1, 2, 3] 3 MHD_SSO_PUSH_DATA))) = 3"
proof -
  have h1: "MHD_INVALID_SOCKET linux_platform \<noteq> socket_fd conn0"
    and h2: "MHD_CONNECTION_CLOSED \<noteq> state conn0"
    and h3: "\<not> tls_conn_of linux_platform conn0"
    and h4: "a_ret (io_answer (env_of (answer (-1) 104 0))) < 0"
    by (simp_all add: sample_defs tls_conn_of_def)
  from C1_plain_send_errors [OF h1 h2 h3 h4, of "[1, 2, 3]" 3 MHD_SSO_PUSH_DATA] h1 h2 h3 h4
  show ?thesis by (simp add: sample_defs)
qed

text \<open>
  \<^bold>\<open>C1\<close> as stated fails: an interrupted send (error 4, EINTR) and a send on a socket
  that is not writable (error 11, EAGAIN) are not two distinct outcomes. Without epoll
  support the two calls return the same code, the same connection and the same list of
  calls; with epoll support they still return the same code.
\<close>

theorem C1_counterexample:
  "MHD_send_on_connection solaris_platform (env_of (answer (-1) 4 0)) conn0 [1, 2, 3] 3
       MHD_SSO_PUSH_DATA
     = MHD_send_on_connection solaris_platform (env_of (answer (-1) 11 0)) conn0 [1, 2, 3] 3
         MHD_SSO_PUSH_DATA
   \<and> MHD_SCKT_ERR_IS_EINTR solaris_platform 4 \<and> MHD_SCKT_ERR_IS_EAGAIN solaris_platform 11
   \<and> fst (MHD_send_on_connection linux_platform (env_of (answer (-1) 4 0)) conn0 [1, 2, 3] 3
           MHD_SSO_PUSH_DATA)
     = fst (MHD_send_on_connection linux_platform (env_of (answer (-1) 11 0)) conn0 [1, 2, 3] 3
           MHD_SSO_PUSH_DATA)"
  by (simp add: model_defs sample_defs Let_def)

text \<open>
  \<^bold>\<open>C2\<close> (the cached buffering mode). For \<^verbatim>\<open>pre_send_setopt\<close> and \<^verbatim>\<open>post_send_setopt\<close>:
  \<^item> where the build corks and \<open>sk_corked\<close> already equals the wanted state
    (\<open>\<not> push\<close>), or where it has no cork and \<open>sk_nodelay\<close> already equals \<open>push\<close>, the
    connection is returned as it was and no call is made;
  \<^item> \<open>sk_corked\<close> changes only if \<^verbatim>\<open>MHD_socket_cork_\<close> was called and answered non-zero
    (its success), \<open>sk_nodelay\<close> only if \<^verbatim>\<open>MHD_socket_set_nodelay_\<close> was called and
    answered zero (its success); a failed call leaves the cache as it was;
  \<^item> the value returned by each of the three send functions is the same whatever the
    two hooks' calls answer.
\<close>

theorem C2_mode_cache:
  "(MHD_TCP_CORK_NOPUSH P \<and> sk_corked c = (\<not> push) \<longrightarrow>
      pre_send_setopt P a c plain push = (c, [])
      \<and> post_send_setopt P a c plain push = (c, []))
   \<and> (\<not> MHD_TCP_CORK_NOPUSH P \<and> sk_nodelay c = push \<longrightarrow>
      pre_send_setopt P a c plain push = (c, [])
      \<and> post_send_setopt P a c plain push = (c, []))
   \<and> (sk_corked (fst (pre_send_setopt P a c plain push)) \<noteq> sk_corked c \<longrightarrow>
      0 \<noteq> a_ret a
      \<and> snd (pre_send_setopt P a c plain push) = [MHD_socket_cork (socket_fd c) (\<not> push)])
   \<and> (sk_corked (fst (post_send_setopt P a c plain push)) \<noteq> sk_corked c \<longrightarrow>
      0 \<noteq> a_ret a
      \<and> snd (post_send_setopt P a c plain push) = [MHD_socket_cork (socket_fd c) (\<not> push)])
   \<and> (sk_nodelay (fst (pre_send_setopt P a c plain push)) \<noteq> sk_nodelay c \<longrightarrow>
      0 = a_ret a
      \<and> snd (pre_send_setopt P a c plain push) = [MHD_socket_set_nodelay (socket_fd c) push])
   \<and> sk_nodelay (fst (post_send_setopt P a c plain push)) = sk_nodelay c
   \<and> fst (MHD_send_on_connection P (env\<lparr>pre_answer := a1, post_answer := a2\<rparr>) c buffer n sso)
     = fst (MHD_send_on_connection P env c buffer n sso)
   \<and> fst (MHD_send_on_connection2 P (env\<lparr>pre_answer := a1, post_answer := a2\<rparr>) c h hn b bn)
     = fst (MHD_send_on_connection2 P env c h hn b bn)
   \<and> map_option fst (fst (MHD_send_sendfile P (env\<lparr>pre_answer := a1, post_answer := a2\<rparr>) c))
     = map_option fst (fst (MHD_send_sendfile P env c))"
proof -
  have pre: "(MHD_TCP_CORK_NOPUSH P \<and> sk_corked c = (\<not> push) \<longrightarrow>
                pre_send_setopt P a c plain push = (c, []))
      \<and> (\<not> MHD_TCP_CORK_NOPUSH P \<and> sk_nodelay c = push \<longrightarrow>
                pre_send_setopt P a c plain push = (c, []))
      \<and> (sk_corked (fst (pre_send_setopt P a c plain push)) \<noteq> sk_corked c \<longrightarrow>
           0 \<noteq> a_ret a
           \<and> snd (pre_send_setopt P a c plain push) = [MHD_socket_cork (socket_fd c) (\<not> push)])
      \<and> (sk_nodelay (fst (pre_send_setopt P a c plain push)) \<noteq> sk_nodelay c \<longrightarrow>
           0 = a_ret a
           \<and> snd (pre_send_setopt P a c plain push) = [MHD_socket_set_nodelay (socket_fd c) push])"
    by (simp add: pre_send_setopt_def Let_def)
  have post: "(MHD_TCP_CORK_NOPUSH P \<and> sk_corked c = (\<not> push) \<longrightarrow>
                post_send_setopt P a c plain push = (c, []))
      \<and> (\<not> MHD_TCP_CORK_NOPUSH P \<longrightarrow> post_send_setopt P a c plain push = (c, []))
      \<and> (sk_corked (fst (post_send_setopt P a c plain push)) \<noteq> sk_corked c \<longrightarrow>
           0 \<noteq> a_ret a
           \<and> snd (post_send_setopt P a c plain push) = [MHD_socket_cork (socket_fd c) (\<not> push)])
      \<and> sk_nodelay (fst (post_send_setopt P a c plain push)) = sk_nodelay c"
    by (simp add: post_send_setopt_def Let_def)
  from pre post show ?thesis
    by (simp add: MHD_send_on_connection_code_indep MHD_send_on_connection2_code_indep
        MHD_send_sendfile_code_indep)
qed

theorem C2_mode_cache_witness:
  "pre_send_setopt linux_platform (answer 0 0 0) conn0 False True = (conn0, [])
   \<and> post_send_setopt linux_platform (answer 0 0 0) conn0 False True = (conn0, [])
   \<and> pre_send_setopt solaris_platform (answer 0 0 0) conn0 False False = (conn0, [])
   \<and> pre_send_setopt linux_platform (answer 1 0 0) conn0 False False
     = (conn0\<lparr>sk_corked := True\<rparr>, [MHD_socket_cork 5 True])
   \<and> pre_send_setopt linux_platform (answer 0 22 0) conn0 False False
     = (conn0, [MHD_socket_cork 5 True, MHD_DLOG ''optlen invalid: %s''])
   \<and> post_send_setopt linux_platform (answer 1 0 0) (conn0\<lparr>sk_corked := True\<rparr>) False True
     = (conn0\<lparr>sk_corked := False\<rparr>, [MHD_socket_cork 5 False])
   \<and> pre_send_setopt solaris_platform (answer 0 0 0) conn0 False True
     = (conn0\<lparr>sk_nodelay := True\<rparr>, [MHD_socket_set_nodelay 5 True])
   \<and> pre_send_setopt solaris_platform (answer (-1) 22 0) conn0 False True
     = (conn0, [MHD_socket_set_nodelay 5 True])"
  using
    C2_mode_cache [of linux_platform conn0 True "answer 0 0 0" False]
    C2_mode_cache [of solaris_platform conn0 False "answer 0 0 0" False]
    C2_mode_cache [of linux_platform conn0 False "answer 1 0 0" False]
    C2_mode_cache [of linux_platform "conn0\<lparr>sk_corked := True\<rparr>" True "answer 1 0 0" False]
    C2_mode_cache [of solaris_platform conn0 True "answer 0 0 0" False]
  by (simp add: sample_defs pre_send_setopt_def post_send_setopt_def cork_errno_switch_def
      Let_def)

text \<open>
  \<^bold>\<open>C3\<close>, as the code has it. Let the zero-copy call of \<^verbatim>\<open>MHD_send_sendfile_\<close> fail with
  ENOTCONN or EPIPE, an error not classified as EAGAIN or EINTR. On Darwin, and on
  Solaris when the error number is none of EAFNOSUPPORT, EINVAL and EOPNOTSUPP, the
  call returns \<^verbatim>\<open>MHD_ERR_CONNRESET_\<close> and leaves \<open>resp_sender\<close> as it was. On Linux (the
  error not being EBADF) and on FreeBSD (the error not being EBUSY) the same failure
  is treated like every other unexpected one: \<open>resp_sender\<close> becomes
  \<open>MHD_resp_sender_std\<close> and the call returns \<^verbatim>\<open>MHD_ERR_AGAIN_\<close>.
\<close>

theorem C3_reset_by_variant:
  assumes "sendfile_entry_asserts P c"
    and "\<not> max_off_t P < offsetu64_of c"
    and "sendfile_failed P (io_answer env)"
    and "ENOTCONN P = a_errno (io_answer env) \<or> EPIPE P = a_errno (io_answer env)"
    and "\<not> MHD_SCKT_ERR_IS_EAGAIN P (a_errno (io_answer env))"
    and "\<not> MHD_SCKT_ERR_IS_EINTR P (a_errno (io_answer env))"
  shows "(SENDFILE P = HAVE_DARWIN_SENDFILE
          \<or> (SENDFILE P = HAVE_SOLARIS_SENDFILE
              \<and> a_errno (io_answer env) \<notin> {EAFNOSUPPORT P, EINVAL P, EOPNOTSUPP P}) \<longrightarrow>
            fst (MHD_send_sendfile P env c)
              = Some (MHD_ERR_CONNRESET P, fst (pre_send_setopt P (pre_answer env) c False True))
            \<and> resp_sender (fst (pre_send_setopt P (pre_answer env) c False True))
              = resp_sender c)
         \<and> ((SENDFILE P = HAVE_LINUX_SENDFILE
              \<and> \<not> MHD_SCKT_ERR_IS_EBADF P (a_errno (io_answer env)))
             \<or> (SENDFILE P = HAVE_FREEBSD_SENDFILE \<and> EBUSY P \<noteq> a_errno (io_answer env)) \<longrightarrow>
            fst (MHD_send_sendfile P env c)
              = Some (MHD_ERR_AGAIN P,
                      (fst (pre_send_setopt P (pre_answer env) c False True))
                        \<lparr>resp_sender := MHD_resp_sender_std\<rparr>))"
  using assms(2-6)
  by (cases "SENDFILE P")
     (auto simp: MHD_send_sendfile_eq [OF assms(1)] Let_def sendfile_primitive_def
        sendfile_failed_def linux_solaris_sendfile_def freebsd_sendfile_def
        darwin_sendfile_def sendfile_finish_return pre_send_setopt_fields)

theorem C3_reset_by_variant_witness:
  "sendfile_entry_asserts darwin_platform conn0
   \<and> \<not> max_off_t darwin_platform < offsetu64_of conn0
   \<and> sendfile_failed darwin_platform (io_answer (env_of (answer (-1) 32 0)))
   \<and> EPIPE darwin_platform = a_errno (io_answer (env_of (answer (-1) 32 0)))
   \<and> ENOTCONN solaris_platform = a_errno (io_answer (env_of (answer (-1) 107 0)))
   \<and> \<not> MHD_SCKT_ERR_IS_EAGAIN darwin_platform 32 \<and> \<not> MHD_SCKT_ERR_IS_EINTR darwin_platform 32
   \<and> fst (MHD_send_sendfile darwin_platform (env_of (answer (-1) 32 0)) conn0)
     = Some (MHD_ERR_CONNRESET darwin_platform, conn0)
   \<and> fst (MHD_send_sendfile solaris_platform (env_of (answer (-1) 107 0)) conn0)
     = Some (MHD_ERR_CONNRESET solaris_platform, conn0\<lparr>sk_nodelay := True\<rparr>)
   \<and> fst (MHD_send_sendfile freebsd_platform (env_of (answer (-1) 32 0)) conn0)
     = Some (MHD_ERR_AGAIN freebsd_platform, conn0\<lparr>resp_sender := MHD_resp_sender_std\<rparr>)
   \<and> fst (MHD_send_sendfile linux_platform (env_of (answer (-1) 107 0)) conn0)
     = Some (MHD_ERR_AGAIN linux_platform, conn0\<lparr>resp_sender := MHD_resp_sender_std\<rparr>)"
proof -
  have asserts: "sendfile_entry_asserts darwin_platform conn0"
    "sendfile_entry_asserts solaris_platform conn0"
    "sendfile_entry_asserts freebsd_platform conn0"
    "sendfile_entry_asserts linux_platform conn0"
    by (simp_all add: sendfile_entry_asserts_def mhd_assert_def sample_defs)
  have offs: "\<not> max_off_t darwin_platform < offsetu64_of conn0"
    "\<not> max_off_t solaris_platform < offsetu64_of conn0"
    "\<not> max_off_t freebsd_platform < offsetu64_of conn0"
    "\<not> max_off_t linux_platform < offsetu64_of conn0"
    by (simp_all add: max_off_t_def offsetu64_of_def sample_defs)
  have fails: "sendfile_failed darwin_platform (io_answer (env_of (answer (-1) 32 0)))"
    "sendfile_failed solaris_platform (io_answer (env_of (answer (-1) 107 0)))"
    "sendfile_failed freebsd_platform (io_answer (env_of (answer (-1) 32 0)))"
    "sendfile_failed linux_platform (io_answer (env_of (answer (-1) 107 0)))"
    by (simp_all add: sendfile_failed_def sample_defs)
  have errs: "ENOTCONN darwin_platform = a_errno (io_answer (env_of (answer (-1) 32 0)))
              \<or> EPIPE darwin_platform = a_errno (io_answer (env_of (answer (-1) 32 0)))"
    "ENOTCONN solaris_platform = a_errno (io_answer (env_of (answer (-1) 107 0)))
     \<or> EPIPE solaris_platform = a_errno (io_answer (env_of (answer (-1) 107 0)))"
    "ENOTCONN freebsd_platform = a_errno (io_answer (env_of (answer (-1) 32 0)))
     \<or> EPIPE freebsd_platform = a_errno (io_answer (env_of (answer (-1) 32 0)))"
    "ENOTCONN linux_platform = a_errno (io_answer (env_of (answer (-1) 107 0)))
     \<or> EPIPE linux_platform = a_errno (io_answer (env_of (answer (-1) 107 0)))"
    by (simp_all add: sample_defs)
  have not_again: "\<not> MHD_SCKT_ERR_IS_EAGAIN darwin_platform
                       (a_errno (io_answer (env_of (answer (-1) 32 0))))"
    "\<not> MHD_SCKT_ERR_IS_EAGAIN solaris_platform (a_errno (io_answer (env_of (answer (-1) 107 0))))"
    "\<not> MHD_SCKT_ERR_IS_EAGAIN freebsd_platform (a_errno (io_answer (env_of (answer (-1) 32 0))))"
    "\<not> MHD_SCKT_ERR_IS_EAGAIN linux_platform (a_errno (io_answer (env_of (answer (-1) 107 0))))"
    by (simp_all add: sample_defs)
  have not_intr: "\<not> MHD_SCKT_ERR_IS_EINTR darwin_platform
                      (a_errno (io_answer (env_of (answer (-1) 32 0))))"
    "\<not> MHD_SCKT_ERR_IS_EINTR solaris_platform (a_errno (io_answer (env_of (answer (-1) 107 0))))"
    "\<not> MHD_SCKT_ERR_IS_EINTR freebsd_platform (a_errno (io_answer (env_of (answer (-1) 32 0))))"
    "\<not> MHD_SCKT_ERR_IS_EINTR linux_platform (a_errno (io_answer (env_of (answer (-1) 107 0))))"
    by (simp_all add: sample_defs)
  from
    C3_reset_by_variant [OF asserts(1) offs(1) fails(1) errs(1) not_again(1) not_intr(1)]
    C3_reset_by_variant [OF asserts(2) offs(2) fails(2) errs(2) not_again(2) not_intr(2)]
    C3_reset_by_variant [OF asserts(3) offs(3) fails(3) errs(3) not_again(3) not_intr(3)]
    C3_reset_by_variant [OF asserts(4) offs(4) fails(4) errs(4) not_again(4) not_intr(4)]
    asserts(1) offs(1) fails(1)
  show ?thesis by (simp add: sample_defs pre_send_setopt_def Let_def)
qed

text \<open>
  \<^bold>\<open>C3\<close> as stated fails on Linux: a \<^verbatim>\<open>sendfile64\<close> that fails with EPIPE (32) does not
  return \<^verbatim>\<open>MHD_ERR_CONNRESET_\<close>; it returns \<^verbatim>\<open>MHD_ERR_AGAIN_\<close> and sets \<open>resp_sender\<close>
  to \<open>MHD_resp_sender_std\<close>.
\<close>

theorem C3_counterexample:
  "MHD_send_sendfile linux_platform (env_of (answer (-1) 32 0)) conn0
     = (Some (MHD_ERR_AGAIN linux_platform, conn0\<lparr>resp_sender := MHD_resp_sender_std\<rparr>),
        [sendfile64 5 7 0 0x20000])
   \<and> EPIPE linux_platform = 32
   \<and> MHD_ERR_AGAIN linux_platform \<noteq> MHD_ERR_CONNRESET linux_platform
   \<and> resp_sender conn0 = MHD_resp_sender_sendfile"
  by (simp add: model_defs sample_defs Let_def)

text \<open>
  \<^bold>\<open>C4\<close>, at a failing input. A plaintext connection in a build with \<^verbatim>\<open>sendmsg\<close>;
  \<^verbatim>\<open>sendmsg\<close> returns \<open>-1\<close> with error 4 (EINTR). \<^verbatim>\<open>MHD_send_on_connection2_\<close> hands the
  raw \<open>-1\<close> to its caller, a value that is none of the \<^verbatim>\<open>MHD_ERR_*\<close> codes, whereas
  \<^verbatim>\<open>MHD_send_on_connection_\<close> answers the same error of \<^verbatim>\<open>MHD_send4_\<close> with
  \<^verbatim>\<open>MHD_ERR_AGAIN_\<close>. Only EAGAIN is translated on the scatter-gather path.
\<close>

theorem C4_sendmsg_raw_error:
  "MHD_send_on_connection2 linux_platform (env_of (answer (-1) 4 0)) conn0 [1, 2, 3] 3 [4, 5] 2
     = (-1, conn0, [sendmsg 5 [1, 2, 3] 3 [4, 5] 2 0x4000])
   \<and> MHD_SCKT_ERR_IS_EINTR linux_platform 4
   \<and> -1 \<notin> {MHD_ERR_AGAIN linux_platform, MHD_ERR_CONNRESET linux_platform,
             MHD_ERR_NOTCONN linux_platform, MHD_ERR_BADF linux_platform}
   \<and> fst (MHD_send_on_connection linux_platform (env_of (answer (-1) 4 0)) conn0 [1, 2, 3] 3
           MHD_SSO_HDR_CORK)
     = MHD_ERR_AGAIN linux_platform"
  by (simp add: model_defs sample_defs Let_def)

text \<open>
  \<^bold>\<open>C5\<close> (offset beyond the largest file offset). If the offset the function computes,
  \<open>response_write_position + fd_off\<close> in 64-bit unsigned arithmetic, is greater than
  \<open>max_off_t\<close>, then \<^verbatim>\<open>MHD_send_sendfile_\<close> returns \<^verbatim>\<open>MHD_ERR_AGAIN_\<close>, the retry code,
  with \<open>resp_sender\<close> set to \<open>MHD_resp_sender_std\<close>, and the only calls it has made are
  those of \<^verbatim>\<open>pre_send_setopt\<close>: no call that moves bytes. (Which function the caller
  invokes next is the caller's decision, taken from \<open>resp_sender\<close>.)
\<close>

theorem C5_offset_beyond_max:
  assumes "sendfile_entry_asserts P c"
    and "max_off_t P < response_write_position c + fd_off (response c)"
  shows "MHD_send_sendfile P env c
           = (Some (MHD_ERR_AGAIN P,
                    (fst (pre_send_setopt P (pre_answer env) c False True))
                      \<lparr>resp_sender := MHD_resp_sender_std\<rparr>),
              snd (pre_send_setopt P (pre_answer env) c False True))
         \<and> (\<forall>ev \<in> set (snd (MHD_send_sendfile P env c)). requested_len ev = None)"
  using assms(2)
  by (simp add: MHD_send_sendfile_eq [OF assms(1)] Let_def offsetu64_of_def
      pre_send_setopt_moves_nothing)

theorem C5_offset_beyond_max_witness:
  "sendfile_entry_asserts linux_platform (conn0\<lparr>response_write_position := 0x8000000000000000\<rparr>)
   \<and> max_off_t linux_platform
       < response_write_position (conn0\<lparr>response_write_position := 0x8000000000000000\<rparr>)
         + fd_off (response (conn0\<lparr>response_write_position := 0x8000000000000000\<rparr>))
   \<and> MHD_send_sendfile linux_platform (env_of (answer 4096 0 0))
         (conn0\<lparr>response_write_position := 0x8000000000000000\<rparr>)
     = (Some (MHD_ERR_AGAIN linux_platform,
              conn0\<lparr>resp_sender := MHD_resp_sender_std,
                     response_write_position := 0x8000000000000000\<rparr>), [])"
proof -
  let ?c = "conn0\<lparr>response_write_position := 0x8000000000000000\<rparr>"
  have h1: "sendfile_entry_asserts linux_platform ?c"
    by (simp add: sendfile_entry_asserts_def mhd_assert_def sample_defs)
  have h2: "max_off_t linux_platform < response_write_position ?c + fd_off (response ?c)"
    by (simp add: max_off_t_def sample_defs)
  from C5_offset_beyond_max [OF h1 h2, of "env_of (answer 4096 0 0)"] h1 h2
  show ?thesis by (simp add: sample_defs pre_send_setopt_def Let_def)
qed

text \<open>
  \<^bold>\<open>C6\<close> (downgrade permanence). No call into this file writes anything but
  \<open>MHD_resp_sender_std\<close> into \<open>resp_sender\<close>: after one call the tag is the old one or
  \<open>MHD_resp_sender_std\<close>. Hence, once the tag is \<open>MHD_resp_sender_std\<close> (as it is after a
  downgrade by \<^verbatim>\<open>MHD_send_sendfile_\<close>), it is still \<open>MHD_resp_sender_std\<close> after any further
  sequence of calls of the three functions, whatever the system answers.
\<close>

theorem C6_downgrade_permanent:
  "(call_layer P x c = Some c' \<longrightarrow>
      resp_sender c' = resp_sender c \<or> resp_sender c' = MHD_resp_sender_std)
   \<and> (resp_sender d = MHD_resp_sender_std \<and> run_calls P xs d = Some d' \<longrightarrow>
      resp_sender d' = MHD_resp_sender_std)"
  using call_layer_touches [of P x c c'] run_calls_keeps_std [of d P xs d']
  by (auto simp: touches_only_def)

theorem C6_downgrade_permanent_witness:
  "call_layer (linux_platform\<lparr>NDEBUG := True\<rparr>) (Call_send_sendfile (env_of (answer 0 0 0)))
       (conn0\<lparr>response_write_position := 0x8000000000000000\<rparr>)
     = Some (conn0\<lparr>resp_sender := MHD_resp_sender_std,
                   response_write_position := 0x8000000000000000\<rparr>)
   \<and> resp_sender (conn0\<lparr>resp_sender := MHD_resp_sender_std,
                         response_write_position := 0x8000000000000000\<rparr>)
     = MHD_resp_sender_std
   \<and> run_calls (linux_platform\<lparr>NDEBUG := True\<rparr>)
         [Call_send_on_connection (env_of (answer 3 0 0)) [1, 2, 3] 3 MHD_SSO_PUSH_DATA,
          Call_send_sendfile (env_of (answer 4096 0 0))]
         (conn0\<lparr>resp_sender := MHD_resp_sender_std\<rparr>)
     = Some (conn0\<lparr>epoll_state := 1, resp_sender := MHD_resp_sender_std\<rparr>)
   \<and> resp_sender (conn0\<lparr>epoll_state := 1, resp_sender := MHD_resp_sender_std\<rparr>)
     = MHD_resp_sender_std"
  using C6_downgrade_permanent
    [of "linux_platform\<lparr>NDEBUG := True\<rparr>" "Call_send_sendfile (env_of (answer 0 0 0))"
        "conn0\<lparr>response_write_position := 0x8000000000000000\<rparr>"
        "conn0\<lparr>resp_sender := MHD_resp_sender_std,
               response_write_position := 0x8000000000000000\<rparr>"
        "conn0\<lparr>resp_sender := MHD_resp_sender_std\<rparr>"
        "[Call_send_on_connection (env_of (answer 3 0 0)) [1, 2, 3] 3 MHD_SSO_PUSH_DATA,
          Call_send_sendfile (env_of (answer 4096 0 0))]"
        "conn0\<lparr>epoll_state := 1, resp_sender := MHD_resp_sender_std\<rparr>"]
  by (simp add: model_defs sample_defs Let_def)

text \<open>
  \<^bold>\<open>C7\<close>, at a failing input. A build with cork and without \<^verbatim>\<open>MSG_MORE\<close> (FreeBSD), a
  plaintext connection. A first send of 100 bytes with \<^verbatim>\<open>MHD_SSO_PREFER_BUFF\<close> corks the
  socket. A header of 2000 bytes with \<^verbatim>\<open>MHD_SSO_HDR_CORK\<close> then selects push-now, as
  the 1024 threshold says, but \<^verbatim>\<open>pre_send_setopt\<close> returns without a call where its
  comment reads \<^verbatim>\<open>BUG: to be fixed\<close>: the first call is the send itself, made on the
  socket that is still corked. The cork is removed only after the send, and only if all
  2000 bytes went out; after a partial send of 500 bytes the socket stays corked. In a
  build without cork the same header has Nagle's algorithm switched off before the send.
\<close>

theorem C7_push_on_corked_socket:
  "MHD_send_on_connection freebsd_platform
       \<lparr>pre_answer = answer 1 0 0, io_answer = answer 100 0 0, post_answer = answer 1 0 0\<rparr>
       conn0 [] 100 MHD_SSO_PREFER_BUFF
     = (100, conn0\<lparr>sk_corked := True\<rparr>, [MHD_socket_cork 5 True, MHD_send4 5 [] 100 0])
   \<and> MHD_send_on_connection freebsd_platform
       \<lparr>pre_answer = answer 1 0 0, io_answer = answer 2000 0 0, post_answer = answer 1 0 0\<rparr>
       (conn0\<lparr>sk_corked := True\<rparr>) [] 2000 MHD_SSO_HDR_CORK
     = (2000, conn0\<lparr>sk_corked := False\<rparr>, [MHD_send4 5 [] 2000 0, MHD_socket_cork 5 False])
   \<and> MHD_send_on_connection freebsd_platform
       \<lparr>pre_answer = answer 1 0 0, io_answer = answer 2000 0 0, post_answer = answer 1 0 0\<rparr>
       (conn0\<lparr>sk_corked := True\<rparr>) [] 2000 MHD_SSO_HDR_CORK
     = MHD_send_on_connection freebsd_platform
       \<lparr>pre_answer = answer 1 0 0, io_answer = answer 2000 0 0, post_answer = answer 1 0 0\<rparr>
       (conn0\<lparr>sk_corked := True\<rparr>) [] 2000 MHD_SSO_PUSH_DATA
   \<and> pre_send_setopt freebsd_platform (answer 1 0 0) (conn0\<lparr>sk_corked := True\<rparr>) True True
     = (conn0\<lparr>sk_corked := True\<rparr>, [])
   \<and> MHD_send_on_connection freebsd_platform
       \<lparr>pre_answer = answer 1 0 0, io_answer = answer 500 0 0, post_answer = answer 1 0 0\<rparr>
       (conn0\<lparr>sk_corked := True\<rparr>) [] 2000 MHD_SSO_HDR_CORK
     = (500, conn0\<lparr>sk_corked := True\<rparr>, [MHD_send4 5 [] 2000 0])
   \<and> MHD_send_on_connection solaris_platform
       \<lparr>pre_answer = answer 0 0 0, io_answer = answer 2000 0 0, post_answer = answer 0 0 0\<rparr>
       conn0 [] 2000 MHD_SSO_HDR_CORK
     = (2000, conn0\<lparr>sk_nodelay := True\<rparr>,
        [MHD_socket_set_nodelay 5 True, MHD_send4 5 [] 2000 0])"
  by (simp add: model_defs sample_defs Let_def)

text \<open>
  \<^bold>\<open>C8\<close> (chunk size and requested length). On a platform whose \<^verbatim>\<open>size_t\<close> has at least
  22 bits and whose largest file offset is at least 2 MiB (every platform the library
  builds on), for a call of \<^verbatim>\<open>MHD_send_sendfile_\<close> that reaches the zero-copy call: the
  chunk size is \<open>0x200000\<close> when the daemon's \<^verbatim>\<open>MHD_USE_THREAD_PER_CONNECTION\<close> flag is
  set and \<open>0x20000\<close> otherwise, exactly one zero-copy call is made, and the length it
  asks for is the minimum of \<open>total_size - response_write_position\<close>, the chunk size
  and the largest file offset.
\<close>

theorem C8_chunk_and_length:
  assumes "sendfile_entry_asserts P c"
    and "\<not> max_off_t P < offsetu64_of c"
    and "22 \<le> SIZE_T_BITS P"
    and "0x200000 \<le> max_off_t P"
  shows "sendfile_chunk_size P c =
           (if options (daemon c) AND MHD_USE_THREAD_PER_CONNECTION P \<noteq> 0
            then 0x200000 else 0x20000)
         \<and> map requested_len (filter is_zero_copy (snd (MHD_send_sendfile P env c)))
           = [Some (min (min (unat (total_size (response c) - response_write_position c))
                             (sendfile_chunk_size P c))
                        (unat (max_off_t P)))]"
proof -
  have chunk: "sendfile_chunk_size P c =
           (if options (daemon c) AND MHD_USE_THREAD_PER_CONNECTION P \<noteq> 0
            then 0x200000 else 0x20000)"
    by (rule sendfile_chunk_size_value [OF assms(3)])
  have "unat (0x200000 :: 64 word) \<le> unat (max_off_t P)"
    using assms(4) by (simp only: word_le_nat_alt)
  then have "sendfile_chunk_size P c \<le> unat (max_off_t P)"
    using chunk by (simp split: if_splits)
  then have len: "min (min (unat (left_of c)) (sendfile_chunk_size P c)) (unat (max_off_t P))
      = send_size_of P c"
    using send_size_value [OF assms(3), of c] by simp
  have "map requested_len (filter is_zero_copy (snd (MHD_send_sendfile P env c)))
      = [Some (send_size_of P c)]"
    using assms(2)
    by (simp add: MHD_send_sendfile_eq [OF assms(1)] Let_def sendfile_finish_zero_copy
        pre_send_setopt_no_zero_copy sendfile_call_len)
  with len chunk show ?thesis by (simp add: left_of_def)
qed

theorem C8_chunk_and_length_witness:
  "sendfile_entry_asserts linux_platform conn0
   \<and> \<not> max_off_t linux_platform < offsetu64_of conn0
   \<and> 22 \<le> SIZE_T_BITS linux_platform
   \<and> 0x200000 \<le> max_off_t linux_platform
   \<and> sendfile_chunk_size linux_platform conn0 = 0x20000
   \<and> sendfile_chunk_size linux_platform (conn0\<lparr>daemon := \<lparr>options = 4\<rparr>\<rparr>) = 0x200000
   \<and> snd (MHD_send_sendfile linux_platform (env_of (answer 4096 0 0)) conn0)
     = [sendfile64 5 7 0 0x20000]
   \<and> snd (MHD_send_sendfile linux_platform (env_of (answer 4096 0 0))
            (conn0\<lparr>daemon := \<lparr>options = 4\<rparr>\<rparr>))
     = [sendfile64 5 7 0 1000000]"
proof -
  have h1: "sendfile_entry_asserts linux_platform conn0"
    by (simp add: sendfile_entry_asserts_def mhd_assert_def sample_defs)
  have h2: "\<not> max_off_t linux_platform < offsetu64_of conn0"
    by (simp add: max_off_t_def offsetu64_of_def sample_defs)
  have h3: "22 \<le> SIZE_T_BITS linux_platform" by (simp add: sample_defs)
  have h4: "0x200000 \<le> max_off_t linux_platform" by (simp add: max_off_t_def sample_defs)
  from C8_chunk_and_length [OF h1 h2 h3 h4, of "env_of (answer 4096 0 0)"] h1 h2 h3 h4
  show ?thesis by (simp add: model_defs sample_defs Let_def)
qed

text \<open>
  \<^bold>\<open>C9\<close>, as the code has it. Let the zero-copy call fail after moving \<open>n\<close> bytes,
  \<open>n\<close> being what it left in \<^verbatim>\<open>sent_bytes\<close> (FreeBSD) or \<^verbatim>\<open>len\<close> (Darwin), within the
  bounds the function asserts. On FreeBSD, if the error is classified as EAGAIN or
  EINTR or is EBUSY, and on Darwin, if the error is classified as EAGAIN or EINTR, the
  call returns \<open>n\<close> when \<open>n\<close> is not zero and \<^verbatim>\<open>MHD_ERR_AGAIN_\<close> only when \<open>n\<close> is zero;
  \<open>resp_sender\<close> is not touched. EBUSY belongs to the retry class on FreeBSD only.
\<close>

theorem C9_partial_progress:
  assumes "sendfile_entry_asserts P c"
    and "\<not> max_off_t P < offsetu64_of c"
    and "0 \<noteq> a_ret (io_answer env)"
  shows "(SENDFILE P = HAVE_FREEBSD_SENDFILE
          \<and> (MHD_SCKT_ERR_IS_EAGAIN P (a_errno (io_answer env))
              \<or> MHD_SCKT_ERR_IS_EINTR P (a_errno (io_answer env))
              \<or> EBUSY P = a_errno (io_answer env))
          \<and> mhd_assert P (int (SSIZE_MAX P) \<ge> a_out (io_answer env)) \<longrightarrow>
            fst (MHD_send_sendfile P env c)
              = Some (if 0 \<noteq> a_out (io_answer env) then a_out (io_answer env)
                      else MHD_ERR_AGAIN P,
                      fst (pre_send_setopt P (pre_answer env) c False True)))
         \<and> (SENDFILE P = HAVE_DARWIN_SENDFILE
          \<and> (MHD_SCKT_ERR_IS_EAGAIN P (a_errno (io_answer env))
              \<or> MHD_SCKT_ERR_IS_EINTR P (a_errno (io_answer env)))
          \<and> mhd_assert P (0 \<le> a_out (io_answer env))
          \<and> mhd_assert P (int (SSIZE_MAX P) \<ge> a_out (io_answer env))
          \<and> mhd_assert P (send_size_of P c \<ge> to_size_t P (a_out (io_answer env))) \<longrightarrow>
            fst (MHD_send_sendfile P env c)
              = Some (if 0 \<noteq> a_out (io_answer env) then a_out (io_answer env)
                      else MHD_ERR_AGAIN P,
                      fst (pre_send_setopt P (pre_answer env) c False True)))"
  using assms(2-3)
  by (auto simp: MHD_send_sendfile_eq [OF assms(1)] Let_def sendfile_primitive_def
        freebsd_sendfile_def darwin_sendfile_def sendfile_finish_return)

theorem C9_partial_progress_witness:
  "sendfile_entry_asserts freebsd_platform conn0
   \<and> \<not> max_off_t freebsd_platform < offsetu64_of conn0
   \<and> 0 \<noteq> a_ret (io_answer (env_of (answer (-1) 16 4096)))
   \<and> EBUSY freebsd_platform = a_errno (io_answer (env_of (answer (-1) 16 4096)))
   \<and> fst (MHD_send_sendfile freebsd_platform (env_of (answer (-1) 16 4096)) conn0)
     = Some (4096, conn0)
   \<and> fst (MHD_send_sendfile freebsd_platform (env_of (answer (-1) 16 0)) conn0)
     = Some (MHD_ERR_AGAIN freebsd_platform, conn0)
   \<and> MHD_SCKT_ERR_IS_EINTR darwin_platform 4
   \<and> fst (MHD_send_sendfile darwin_platform (env_of (answer (-1) 4 4096)) conn0)
     = Some (4096, conn0)
   \<and> fst (MHD_send_sendfile darwin_platform (env_of (answer (-1) 4 0)) conn0)
     = Some (MHD_ERR_AGAIN darwin_platform, conn0)"
proof -
  have h1: "sendfile_entry_asserts freebsd_platform conn0"
    by (simp add: sendfile_entry_asserts_def mhd_assert_def sample_defs)
  have h2: "\<not> max_off_t freebsd_platform < offsetu64_of conn0"
    by (simp add: max_off_t_def offsetu64_of_def sample_defs)
  have h3: "0 \<noteq> a_ret (io_answer (env_of (answer (-1) 16 4096)))"
    by (simp add: sample_defs)
  have d1: "sendfile_entry_asserts darwin_platform conn0"
    by (simp add: sendfile_entry_asserts_def mhd_assert_def sample_defs)
  have d2: "\<not> max_off_t darwin_platform < offsetu64_of conn0"
    by (simp add: max_off_t_def offsetu64_of_def sample_defs)
  have d3: "0 \<noteq> a_ret (io_answer (env_of (answer (-1) 4 4096)))"
    by (simp add: sample_defs)
  from C9_partial_progress [OF h1 h2 h3] C9_partial_progress [OF d1 d2 d3] h1 h2 h3
  show ?thesis by (simp add: model_defs sample_defs Let_def)
qed

text \<open>
  \<^bold>\<open>C9\<close> as stated fails on Darwin for EBUSY (16): after 4096 bytes the call returns
  \<^verbatim>\<open>MHD_ERR_BADF_\<close>, not 4096.
\<close>

theorem C9_counterexample:
  "MHD_send_sendfile darwin_platform (env_of (answer (-1) 16 4096)) conn0
     = (Some (MHD_ERR_BADF darwin_platform, conn0), [sendfile_darwin 7 5 0 0x20000])
   \<and> EBUSY darwin_platform = 16
   \<and> MHD_ERR_BADF darwin_platform \<noteq> 4096"
  by (simp add: model_defs sample_defs Let_def)

text \<open>
  \<^bold>\<open>C10\<close> (frame). None of \<^verbatim>\<open>MHD_send_on_connection_\<close>, \<^verbatim>\<open>MHD_send_on_connection2_\<close> and
  \<^verbatim>\<open>MHD_send_sendfile_\<close> changes \<open>response_write_position\<close> or the response's
  \<open>total_size\<close>; they report a byte count and leave the offset to the caller. All they
  may change in the connection is the cached buffering flags, the write-ready bit of
  \<open>epoll_state\<close> and \<open>resp_sender\<close>.
\<close>

theorem C10_frame:
  "(MHD_send_on_connection P env c buffer n sso = (r, c', t) \<longrightarrow>
      response_write_position c' = response_write_position c
      \<and> total_size (response c') = total_size (response c) \<and> touches_only P c c')
   \<and> (MHD_send_on_connection2 P env2 c h hn b bn = (r2, c2, t2) \<longrightarrow>
      response_write_position c2 = response_write_position c
      \<and> total_size (response c2) = total_size (response c) \<and> touches_only P c c2)
   \<and> (MHD_send_sendfile P env3 c = (Some (r3, c3), t3) \<longrightarrow>
      response_write_position c3 = response_write_position c
      \<and> total_size (response c3) = total_size (response c) \<and> touches_only P c c3)"
proof (intro conjI impI)
  assume "MHD_send_on_connection P env c buffer n sso = (r, c', t)"
  with MHD_send_on_connection_touches [of P c env buffer n sso]
  have *: "touches_only P c c'" by simp
  then show "touches_only P c c'" .
  from * show "response_write_position c' = response_write_position c"
    and "total_size (response c') = total_size (response c)"
    by (simp_all add: touches_only_def)
next
  assume "MHD_send_on_connection2 P env2 c h hn b bn = (r2, c2, t2)"
  with MHD_send_on_connection2_touches [of P c env2 h hn b bn]
  have *: "touches_only P c c2" by simp
  then show "touches_only P c c2" .
  from * show "response_write_position c2 = response_write_position c"
    and "total_size (response c2) = total_size (response c)"
    by (simp_all add: touches_only_def)
next
  assume "MHD_send_sendfile P env3 c = (Some (r3, c3), t3)"
  with MHD_send_sendfile_touches [of P c env3]
  have *: "touches_only P c c3" by (simp add: result_touches_def)
  then show "touches_only P c c3" .
  from * show "response_write_position c3 = response_write_position c"
    and "total_size (response c3) = total_size (response c)"
    by (simp_all add: touches_only_def)
qed

theorem C10_frame_witness:
  "MHD_send_on_connection linux_platform (env_of (answer 2 0 0)) conn0 [1, 2, 3] 3
       MHD_SSO_PUSH_DATA
     = (2, conn0\<lparr>epoll_state := 1\<rparr>, [MHD_send4 5 [1, 2, 3] 3 0])
   \<and> MHD_send_on_connection2 linux_platform (env_of (answer 5 0 0)) conn0 [1, 2, 3] 3 [4, 5] 2
     = (5, conn0, [sendmsg 5 [1, 2, 3] 3 [4, 5] 2 0x4000])
   \<and> MHD_send_sendfile linux_platform (env_of (answer 4096 0 0)) conn0
     = (Some (4096, conn0\<lparr>epoll_state := 1\<rparr>), [sendfile64 5 7 0 0x20000])
   \<and> response_write_position (conn0\<lparr>epoll_state := 1\<rparr>) = response_write_position conn0
   \<and> total_size (response (conn0\<lparr>epoll_state := 1\<rparr>)) = total_size (response conn0)
   \<and> touches_only linux_platform conn0 (conn0\<lparr>epoll_state := 1\<rparr>)
   \<and> touches_only linux_platform conn0 conn0"
  using C10_frame [of linux_platform "env_of (answer 2 0 0)" conn0 "[1, 2, 3]" 3
      MHD_SSO_PUSH_DATA 2 "conn0\<lparr>epoll_state := 1\<rparr>" "[MHD_send4 5 [1, 2, 3] 3 0]"
      "env_of (answer 5 0 0)" "[1, 2, 3]" 3 "[4, 5]" 2 5 conn0
      "[sendmsg 5 [1, 2, 3] 3 [4, 5] 2 0x4000]"
      "env_of (answer 4096 0 0)" 4096 "conn0\<lparr>epoll_state := 1\<rparr>"
      "[sendfile64 5 7 0 0x20000]"]
  by (simp add: model_defs sample_defs touches_only_def Let_def)

end
